theory Spec2Isabelle
  imports Main
begin

section \<open>Python values, exceptions and the world the client acts on\<close>

text \<open>
  The client in \<^verbatim>\<open>tangerine/client.py\<close> handles decoded JSON documents and plain Python
  values. A decoded document is a \<open>json\<close> value; Python's \<^verbatim>\<open>None\<close> is \<open>JNull\<close>
  (what \<^verbatim>\<open>json.loads\<close> gives for \<^verbatim>\<open>null\<close>). A \<^verbatim>\<open>dict\<close> is an association list
  read with \<open>map_of\<close>; strings are byte strings (UTF-8). Floats are carried unchanged as
  values of a type parameter \<open>'f\<close>: the client never computes with them.
\<close>

datatype 'f json =
    JNull
  | JBool bool
  | JInt int
  | JFloat 'f
  | JStr string
  | JList "'f json list"
  | JObj "(string \<times> 'f json) list"

text \<open>
  The exceptions the client can raise. \<open>APIResponseError\<close> and
  \<open>UnsupportedAccountTypeForDownload\<close> are the classes of \<^verbatim>\<open>tangerine/exceptions.py\<close>,
  each carrying the argument it was constructed with; the others are Python's and the
  \<^verbatim>\<open>requests\<close> library's. \<open>Raised\<close> stands for whatever the login flow raises.
\<close>

datatype 'f error =
    KeyError string
  | TypeError
  | APIResponseError "'f json"
  | UnsupportedAccountTypeForDownload "'f json"
  | HTTPError nat
  | ConnectionError
  | JSONDecodeError
  | OSError string
  | Raised string

datatype http_method = GET | POST

record 'f request =
  meth :: http_method
  url :: string
  headers :: "(string \<times> string option) list"
  json_data :: "'f json option"

text \<open>
  A response as \<^verbatim>\<open>requests\<close> presents it: the status code, the body text, the body
  decoded as JSON (\<open>None\<close> when the body is not JSON, so that \<^verbatim>\<open>response.json()\<close>
  raises), and the cookies it sets.
\<close>

record 'f response =
  status_code :: nat
  body_text :: string
  body_json :: "'f json option"
  set_cookies :: "string \<rightharpoonup> string"

text \<open>
  Everything the client reads or changes: the session's cookie store, the requests the
  session has sent with what came back (\<open>None\<close>: the connection failed), the files of
  the working directory, which file names can be opened for writing, and what was printed
  to standard output.
\<close>

record 'f world =
  cookies :: "string \<rightharpoonup> string"
  exchanges :: "('f request \<times> 'f response option) list"
  files :: "string \<rightharpoonup> string"
  writable :: "string \<Rightarrow> bool"
  printed :: "'f json list"

text \<open>
  A Python call is a function of the world that returns the value or the exception
  raised, and the world it leaves behind: effects made before an exception stay.
\<close>

type_synonym ('f, 'a) io = "'f world \<Rightarrow> ('f error + 'a) \<times> 'f world"

definition io_return :: "'a \<Rightarrow> ('f, 'a) io" where
  "io_return x w = (Inr x, w)"

definition io_raise :: "'f error \<Rightarrow> ('f, 'a) io" where
  "io_raise e w = (Inl e, w)"

definition io_lift :: "'f error + 'a \<Rightarrow> ('f, 'a) io" where
  "io_lift r w = (r, w)"

definition io_bind :: "('f, 'a) io \<Rightarrow> ('a \<Rightarrow> ('f, 'b) io) \<Rightarrow> ('f, 'b) io" where
  "io_bind m f w =
     (case m w of
        (Inl e, w') \<Rightarrow> (Inl e, w')
      | (Inr x, w') \<Rightarrow> f x w')"

text \<open>
  \<^verbatim>\<open>value[key]\<close> with a string key: a \<^verbatim>\<open>dict\<close> gives the value or raises
  \<^verbatim>\<open>KeyError\<close>; \<^verbatim>\<open>None\<close>, numbers, strings and lists raise \<^verbatim>\<open>TypeError\<close>.
\<close>

definition subscript :: "'f json \<Rightarrow> string \<Rightarrow> 'f error + 'f json" where
  "subscript v k =
     (case v of
        JObj kvs \<Rightarrow> (case map_of kvs k of None \<Rightarrow> Inl (KeyError k) | Some x \<Rightarrow> Inr x)
      | _ \<Rightarrow> Inl TypeError)"

section \<open>The response envelope decoder\<close>

text \<open>
  \<^verbatim>\<open>
  def api_response(root_key='', check_response_status=True):
      def decorator(fn):
          def wrapper(*args, **kwargs):
              response_json = fn(*args, **kwargs)
              if check_response_status and response_json['response_status']['status_code'] != 'SUCCESS':
                  raise exceptions.APIResponseError(response_json)
              if not root_key:
                  return response_json
              return response_json[root_key]
  \<close>
  The decorated function is the argument \<open>fn\<close>, already applied to its arguments.
\<close>

definition api_response :: "string \<Rightarrow> bool \<Rightarrow> ('f, 'f json) io \<Rightarrow> ('f, 'f json) io" where
  "api_response root_key check_response_status fn =
     io_bind fn (\<lambda>response_json.
       io_bind
         (if check_response_status then
            io_bind (io_lift (subscript response_json ''response_status'')) (\<lambda>rs.
              io_bind (io_lift (subscript rs ''status_code'')) (\<lambda>sc.
                if sc \<noteq> JStr ''SUCCESS'' then io_raise (APIResponseError response_json)
                else io_return ()))
          else io_return ())
         (\<lambda>_. if root_key = [] then io_return response_json
              else io_lift (subscript response_json root_key)))"

section \<open>Strings, URL encoding and dates\<close>

text \<open>
  \<^verbatim>\<open>str(n)\<close> for an integer: decimal digits, with a sign for a negative number.
\<close>

definition digit_char :: "nat \<Rightarrow> char" where
  "digit_char n = ''0123456789ABCDEF'' ! n"

fun str_nat :: "nat \<Rightarrow> string" where
  "str_nat n = (if n < 10 then [digit_char n] else str_nat (n div 10) @ [digit_char (n mod 10)])"

declare str_nat.simps [simp del]

definition str_int :: "int \<Rightarrow> string" where
  "str_int i = (if i < 0 then CHR ''-'' # str_nat (nat (- i)) else str_nat (nat i))"

text \<open>
  \<^verbatim>\<open>str(v)\<close> and \<^verbatim>\<open>'{}'.format(v)\<close>. The text Python gives a float, a list or a
  dict is left to the parameter \<open>repr\<close>.
\<close>

definition py_str :: "('f json \<Rightarrow> string) \<Rightarrow> 'f json \<Rightarrow> string" where
  "py_str repr v =
     (case v of
        JStr s \<Rightarrow> s
      | JNull \<Rightarrow> ''None''
      | JBool b \<Rightarrow> (if b then ''True'' else ''False'')
      | JInt i \<Rightarrow> str_int i
      | _ \<Rightarrow> repr v)"

text \<open>\<^verbatim>\<open>sep.join(xs)\<close>.\<close>

fun str_join :: "string \<Rightarrow> string list \<Rightarrow> string" where
  "str_join sep [] = []"
| "str_join sep [x] = x"
| "str_join sep (x # y # ys) = x @ sep @ str_join sep (y # ys)"

text \<open>
  \<^verbatim>\<open>urllib.parse.quote\<close>, \<^verbatim>\<open>quote_plus\<close> and \<^verbatim>\<open>urlencode\<close>: letters, digits and
  \<^verbatim>\<open>_.-~\<close> are never quoted, nor the characters of \<open>safe\<close>; every other byte becomes
  \<^verbatim>\<open>%XX\<close>. \<^verbatim>\<open>quote\<close> has \<^verbatim>\<open>safe='/'\<close> by default; \<^verbatim>\<open>quote_plus\<close> has \<^verbatim>\<open>safe=''\<close>
  and writes a space as \<^verbatim>\<open>+\<close>. \<^verbatim>\<open>urlencode\<close> quotes each key and the \<^verbatim>\<open>str\<close> of each
  value with \<^verbatim>\<open>quote_plus\<close> and joins the pairs with \<^verbatim>\<open>&\<close>, in the order of the dict.
\<close>

definition always_safe :: "char \<Rightarrow> bool" where
  "always_safe c \<longleftrightarrow>
     c \<in> set ''ABCDEFGHIJKLMNOPQRSTUVWXYZabcdefghijklmnopqrstuvwxyz0123456789_.-~''"

definition percent_encode :: "char \<Rightarrow> string" where
  "percent_encode c =
     [CHR ''%'', digit_char ((of_char c :: nat) div 16), digit_char ((of_char c :: nat) mod 16)]"

definition quote_safe :: "string \<Rightarrow> string \<Rightarrow> string" where
  "quote_safe safe s =
     concat (map (\<lambda>c. if always_safe c \<or> c \<in> set safe then [c] else percent_encode c) s)"

definition quote :: "string \<Rightarrow> string" where
  "quote s = quote_safe ''/'' s"

definition quote_plus :: "string \<Rightarrow> string" where
  "quote_plus s =
     (if CHR '' '' \<notin> set s then quote_safe [] s
      else map (\<lambda>c. if c = CHR '' '' then CHR ''+'' else c) (quote_safe '' '' s))"

definition urlencode :: "('f json \<Rightarrow> string) \<Rightarrow> (string \<times> 'f json) list \<Rightarrow> string" where
  "urlencode repr query =
     str_join ''&'' (map (\<lambda>(k, v). quote_plus k @ ''='' @ quote_plus (py_str repr v)) query)"

text \<open>
  The inverse direction, as \<^verbatim>\<open>urllib.parse.parse_qsl\<close> reads a query string back into its
  parameters: the string is split at every \<^verbatim>\<open>&\<close>, each piece at its first \<^verbatim>\<open>=\<close>
  (a piece without \<^verbatim>\<open>=\<close> or with an empty value is dropped), and in names and values
  \<^verbatim>\<open>+\<close> is read as a space and \<^verbatim>\<open>%XX\<close> as the byte with that hexadecimal code.
\<close>

definition hex_value :: "char \<Rightarrow> nat option" where
  "hex_value c =
     map_of (zip ''0123456789ABCDEFabcdef''
               [0, 1, 2, 3, 4, 5, 6, 7, 8, 9, 10, 11, 12, 13, 14, 15, 10, 11, 12, 13, 14, 15]) c"

definition byte_char :: "nat \<Rightarrow> char" where
  "byte_char n =
     Char (odd n) (odd (n div 2)) (odd (n div 4)) (odd (n div 8))
          (odd (n div 16)) (odd (n div 32)) (odd (n div 64)) (odd (n div 128))"

fun unquote_plus :: "string \<Rightarrow> string" where
  "unquote_plus [] = []"
| "unquote_plus (c # cs) =
     (if c = CHR ''+'' then CHR '' '' # unquote_plus cs
      else if c = CHR ''%'' then
        (case cs of
           h # l # rest \<Rightarrow>
             (case (hex_value h, hex_value l) of
                (Some a, Some b) \<Rightarrow> byte_char (16 * a + b) # unquote_plus rest
              | _ \<Rightarrow> c # unquote_plus cs)
         | _ \<Rightarrow> c # unquote_plus cs)
      else c # unquote_plus cs)"

fun split_on :: "char \<Rightarrow> string \<Rightarrow> string list" where
  "split_on sep [] = [[]]"
| "split_on sep (c # cs) =
     (if c = sep then [] # split_on sep cs
      else (case split_on sep cs of
              [] \<Rightarrow> [[c]]
            | piece # pieces \<Rightarrow> (c # piece) # pieces))"

fun split_first :: "char \<Rightarrow> string \<Rightarrow> (string \<times> string) option" where
  "split_first sep [] = None"
| "split_first sep (c # cs) =
     (if c = sep then Some ([], cs)
      else (case split_first sep cs of
              None \<Rightarrow> None
            | Some (name, val) \<Rightarrow> Some (c # name, val)))"

definition parse_qsl :: "string \<Rightarrow> (string \<times> string) list" where
  "parse_qsl qs =
     concat (map (\<lambda>piece.
                    case split_first CHR ''='' piece of
                      None \<Rightarrow> []
                    | Some (name, val) \<Rightarrow>
                        if val = [] then [] else [(unquote_plus name, unquote_plus val)])
               (split_on CHR ''&'' qs))"

text \<open>
  A \<^verbatim>\<open>datetime.date\<close> and the three \<^verbatim>\<open>strftime\<close> formats the client uses. A
  \<^verbatim>\<open>datetime.date\<close> has a year from 1 to 9999, a month from 1 to 12 and a day from 1 to
  at most 31: \<open>valid_date\<close>. \<^verbatim>\<open>%m\<close> and \<^verbatim>\<open>%d\<close> are written with two digits. \<^verbatim>\<open>%Y\<close>
  is the year in decimal as the C library of Linux writes it, without padding: four digits
  from the year 1000 on, fewer before (\<^verbatim>\<open>date(999, 1, 1).strftime('%Y%m%d')\<close> is
  \<^verbatim>\<open>'9990101'\<close>).
\<close>

record date =
  year :: nat
  month :: nat
  day :: nat

definition valid_date :: "date \<Rightarrow> bool" where
  "valid_date d \<longleftrightarrow>
     1 \<le> year d \<and> year d \<le> 9999 \<and> 1 \<le> month d \<and> month d \<le> 12 \<and> 1 \<le> day d \<and> day d \<le> 31"

definition zero_pad :: "nat \<Rightarrow> string \<Rightarrow> string" where
  "zero_pad k s = replicate (k - length s) CHR ''0'' @ s"

definition strftime_Ymd :: "date \<Rightarrow> string" where
  "strftime_Ymd d =
     str_nat (year d) @ zero_pad 2 (str_nat (month d)) @ zero_pad 2 (str_nat (day d))"

definition strftime_Y_m_d :: "date \<Rightarrow> string" where
  "strftime_Y_m_d d =
     str_nat (year d) @ ''-'' @ zero_pad 2 (str_nat (month d)) @ ''-''
       @ zero_pad 2 (str_nat (day d))"

definition strftime_midnight :: "date \<Rightarrow> string" where
  "strftime_midnight d = strftime_Y_m_d d @ ''T00:00:00.000Z''"

section \<open>The session transport\<close>

text \<open>
  The bank's servers are a parameter \<open>srv\<close>: what comes back for a request may depend
  on everything that happened before. \<^verbatim>\<open>session.get\<close> and \<^verbatim>\<open>session.post\<close> send the
  request, record the exchange and store the cookies of the response in the session.
\<close>

type_synonym 'f server = "'f world \<Rightarrow> 'f request \<Rightarrow> 'f response option"

definition session_send :: "'f server \<Rightarrow> 'f request \<Rightarrow> ('f, 'f response) io" where
  "session_send srv req w =
     (case srv w req of
        None \<Rightarrow> (Inl ConnectionError, w\<lparr>exchanges := exchanges w @ [(req, None)]\<rparr>)
      | Some resp \<Rightarrow>
          (Inr resp, w\<lparr>exchanges := exchanges w @ [(req, Some resp)],
                        cookies := cookies w ++ set_cookies resp\<rparr>))"

text \<open>
  \<^verbatim>\<open>Response.raise_for_status()\<close> of \<^verbatim>\<open>requests\<close> raises \<^verbatim>\<open>HTTPError\<close> for a client
  error (400 to 499) and for a server error (500 to 599), and for no other status.
\<close>

definition raise_for_status :: "'f response \<Rightarrow> ('f, unit) io" where
  "raise_for_status resp =
     (if 400 \<le> status_code resp \<and> status_code resp < 600
      then io_raise (HTTPError (status_code resp))
      else io_return ())"

definition response_json :: "'f response \<Rightarrow> ('f, 'f json) io" where
  "response_json resp =
     (case body_json resp of None \<Rightarrow> io_raise JSONDecodeError | Some j \<Rightarrow> io_return j)"

text \<open>
  \<^verbatim>\<open>print(v)\<close> adds to the standard output. \<^verbatim>\<open>open(name, 'w')\<close> followed by
  \<^verbatim>\<open>f.write(content)\<close> replaces the content of the file, or raises \<^verbatim>\<open>OSError\<close> when
  the file cannot be opened for writing.
\<close>

definition py_print :: "'f json \<Rightarrow> ('f, unit) io" where
  "py_print v w = (Inr (), w\<lparr>printed := printed w @ [v]\<rparr>)"

definition write_file :: "string \<Rightarrow> string \<Rightarrow> ('f, unit) io" where
  "write_file name content w =
     (if writable w name then (Inr (), w\<lparr>files := (files w)(name \<mapsto> content)\<rparr>)
      else (Inl (OSError name), w))"

section \<open>The client\<close>

text \<open>
  \<^verbatim>\<open>
  def _api_get(self, path):
      url = 'https://secure.tangerine.ca/web/rest{}'.format(path)
      response = self.session.get(url)
      response.raise_for_status()
      return response.json()
  \<close>
\<close>

definition get_request :: "string \<Rightarrow> 'f request" where
  "get_request path =
     \<lparr>meth = GET, url = ''https://secure.tangerine.ca/web/rest'' @ path,
      headers = [], json_data = None\<rparr>"

definition api_get :: "'f server \<Rightarrow> string \<Rightarrow> ('f, 'f json) io" where
  "api_get srv path =
     io_bind (session_send srv (get_request path)) (\<lambda>response.
       io_bind (raise_for_status response) (\<lambda>_.
         response_json response))"

text \<open>
  \<^verbatim>\<open>
  def _api_post(self, path, data):
      transaction_token = self.session.cookies.get('TRANSACTION_TOKEN')
      resp = self.session.post(
          'https://secure.tangerine.ca/web/rest{}'.format(path),
          headers={..., 'x-transaction-token': transaction_token},
          json=data)
      resp.raise_for_status()
      logger.debug(resp.text)
      return resp
  \<close>
  The cookie store is a map from cookie names to values; \<^verbatim>\<open>cookies.get\<close> gives
  \<^verbatim>\<open>None\<close> for a cookie that is not there. \<open>post_request\<close> is the request handed to
  \<^verbatim>\<open>session.post\<close>. Logging is not modelled.
\<close>

definition post_request :: "string option \<Rightarrow> string \<Rightarrow> 'f json \<Rightarrow> 'f request" where
  "post_request transaction_token path data =
     \<lparr>meth = POST, url = ''https://secure.tangerine.ca/web/rest'' @ path,
      headers =
        [(''x-web-flavour'', Some ''fbe''),
         (''Accept'', Some ''application/json''),
         (''Origin'', Some ''https://www.tangerine.ca''),
         (''Referrer'', Some ''https://www.tangerine.ca/app/''),
         (''User-Agent'',
            Some ''Mozilla/5.0 (X11; Ubuntu; Linux x86_64; rv:57.0) Gecko/20100101 Firefox/57.0''),
         (''x-transaction-token'', transaction_token)],
      json_data = Some data\<rparr>"

definition api_post :: "'f server \<Rightarrow> string \<Rightarrow> 'f json \<Rightarrow> ('f, 'f response) io" where
  "api_post srv path data w =
     (let transaction_token = cookies w ''TRANSACTION_TOKEN'' in
      io_bind (session_send srv (post_request transaction_token path data)) (\<lambda>resp.
        io_bind (raise_for_status resp) (\<lambda>_.
          io_return resp)) w)"

text \<open>
  \<^verbatim>\<open>
  @contextlib.contextmanager
  def login(self):
      self.login_flow.start()
      try:
          yield
      except Exception:
          raise
      finally:
          self.login_flow.end()
  \<close>
  \<^verbatim>\<open>tangerine/login.py\<close> is not part of the sources at hand: the login flow's
  \<^verbatim>\<open>start\<close> and \<^verbatim>\<open>end\<close> are the parameters \<open>flow_start\<close> and \<open>flow_end\<close>, and the
  body of the \<^verbatim>\<open>with\<close> block is \<open>body\<close>. An exception of \<^verbatim>\<open>start\<close> leaves before the
  \<^verbatim>\<open>try\<close>; the \<^verbatim>\<open>except\<close> clause raises again what it caught; an exception of
  \<^verbatim>\<open>end\<close> in the \<^verbatim>\<open>finally\<close> clause replaces the outcome of the body.
\<close>

definition login :: "('f, unit) io \<Rightarrow> ('f, unit) io \<Rightarrow> ('f, 'a) io \<Rightarrow> ('f, 'a) io" where
  "login flow_start flow_end body w =
     (case flow_start w of
        (Inl e, w1) \<Rightarrow> (Inl e, w1)
      | (Inr _, w1) \<Rightarrow>
          (case body w1 of
             (r, w2) \<Rightarrow>
               (case flow_end w2 of
                  (Inl e, w3) \<Rightarrow> (Inl e, w3)
                | (Inr _, w3) \<Rightarrow> (r, w3))))"

text \<open>
  \<^verbatim>\<open>
  @api_response('account_summary')
  def get_account(self, account_id: str):
      return self._api_get('/v1/accounts/{}?billing-cycle-ranges=true'.format(account_id))
  \<close>
\<close>

definition get_account :: "'f server \<Rightarrow> ('f json \<Rightarrow> string) \<Rightarrow> 'f json \<Rightarrow> ('f, 'f json) io" where
  "get_account srv repr account_id =
     api_response ''account_summary'' True
       (api_get srv (''/v1/accounts/'' @ py_str repr account_id @ ''?billing-cycle-ranges=true''))"

text \<open>
  \<^verbatim>\<open>
  @api_response('transactions')
  def list_transactions(self, account_ids: list, period_from: datetime.date, period_to: datetime.date):
      params = {
          'accountIdentifiers': ','.join(account_ids),
          'hideAuthorizedStatus': True,
          'periodFrom': period_from.strftime('%Y-%m-%dT00:00:00.000Z'),
          'periodTo': period_to.strftime('%Y-%m-%dT00:00:00.000Z'),
          'skip': 0,
      }
      return self._api_get('/pfm/v1/transactions?{}'.format(urlencode(params)))
  \<close>
\<close>

definition list_transactions ::
  "'f server \<Rightarrow> ('f json \<Rightarrow> string) \<Rightarrow> string list \<Rightarrow> date \<Rightarrow> date \<Rightarrow> ('f, 'f json) io" where
  "list_transactions srv repr account_ids period_from period_to =
     api_response ''transactions'' True
       (let params =
              [(''accountIdentifiers'', JStr (str_join '','' account_ids)),
               (''hideAuthorizedStatus'', JBool True),
               (''periodFrom'', JStr (strftime_midnight period_from)),
               (''periodTo'', JStr (strftime_midnight period_to)),
               (''skip'', JInt 0)]
        in api_get srv (''/pfm/v1/transactions?'' @ urlencode repr params))"

text \<open>
  \<^verbatim>\<open>
  @api_response('token', check_response_status=False)
  def _get_transaction_download_token(self):
      return self._api_get('/v1/customers/my/security/transaction-download-token')
  \<close>
\<close>

definition get_transaction_download_token :: "'f server \<Rightarrow> ('f, 'f json) io" where
  "get_transaction_download_token srv =
     api_response ''token'' False
       (api_get srv ''/v1/customers/my/security/transaction-download-token'')"

text \<open>
  The statement download, \<^verbatim>\<open>download_ofx(self, account, start_date, end_date, save=True)\<close>.
  Its first part chooses the download account type and the two display fields:
  \<^verbatim>\<open>
  if account['type'] == 'CHEQUING':
      account_type = 'SAVINGS'
      account_display_name = account['display_name']
      account_nickname = account['nickname']
  elif account['type'] == 'SAVINGS':
      account_type = 'SAVINGS'
      account_display_name = account['display_name']
      account_nickname = account['nickname']
  elif account['type'] == 'CREDIT_CARD':
      account_type = 'CREDITLINE'
      account_details = self.get_account(account['number'])
      account_display_name = account_details['display_name']
      account_nickname = account_details['account_nick_name']
  else:
      raise exceptions.UnsupportedAccountTypeForDownload(account['type'])
  \<close>
  \<open>resolve_account\<close> is this chain; it returns the three local variables.
  \<^verbatim>\<open>account['type']\<close> is read once: reading it again gives the same value or the same
  exception.
\<close>

definition resolve_account ::
  "'f server \<Rightarrow> ('f json \<Rightarrow> string) \<Rightarrow> 'f json \<Rightarrow> ('f, string \<times> 'f json \<times> 'f json) io" where
  "resolve_account srv repr account =
     io_bind (io_lift (subscript account ''type'')) (\<lambda>account_type_field.
       if account_type_field = JStr ''CHEQUING'' then
         io_bind (io_lift (subscript account ''display_name'')) (\<lambda>account_display_name.
           io_bind (io_lift (subscript account ''nickname'')) (\<lambda>account_nickname.
             io_return (''SAVINGS'', account_display_name, account_nickname)))
       else if account_type_field = JStr ''SAVINGS'' then
         io_bind (io_lift (subscript account ''display_name'')) (\<lambda>account_display_name.
           io_bind (io_lift (subscript account ''nickname'')) (\<lambda>account_nickname.
             io_return (''SAVINGS'', account_display_name, account_nickname)))
       else if account_type_field = JStr ''CREDIT_CARD'' then
         io_bind (io_lift (subscript account ''number'')) (\<lambda>number.
           io_bind (get_account srv repr number) (\<lambda>account_details.
             io_bind (io_lift (subscript account_details ''display_name'')) (\<lambda>account_display_name.
               io_bind (io_lift (subscript account_details ''account_nick_name'')) (\<lambda>account_nickname.
                 io_return (''CREDITLINE'', account_display_name, account_nickname)))))
       else io_raise (UnsupportedAccountTypeForDownload account_type_field))"

text \<open>
  The rest of \<^verbatim>\<open>download_ofx\<close>:
  \<^verbatim>\<open>
  token = self._get_transaction_download_token()
  filename = '{}.QFX'.format(account_nickname)
  params = {
      'fileType': 'QFX', 'ofxVersion': '102', 'sessionId': 'tng', 'orgName': 'Tangerine',
      'bankId': '0614', 'language': 'eng',
      'acctType': account_type, 'acctNum': account_display_name, 'acctName': account_nickname,
      'userDefined': token,
      'startDate': start_date.strftime('%Y%m%d'), 'endDate': end_date.strftime('%Y%m%d'),
      'orgId': 10951, 'custom.tag': 'customValue',
      'csvheader': 'Date,Transaction,Name,Memo,Amount',
  }
  response = self.session.get('https://ofx.tangerine.ca/{}?{}'.format(quote(filename), urlencode(params)),
                              headers={'Referer': 'https://www.tangerine.ca/app/'})
  response.raise_for_status()
  if save:
      local_filename = '{}_{}-{}.QFX'.format(account_nickname,
                                             start_date.strftime('%Y%m%d'),
                                             end_date.strftime('%Y%m%d'))
      with open(local_filename, 'w') as f:
          f.write(response.text)
      logger.info('Saved: {}'.format(local_filename))
      return local_filename
  else:
      return response.text
  \<close>
\<close>

definition download_params ::
  "string \<Rightarrow> 'f json \<Rightarrow> 'f json \<Rightarrow> 'f json \<Rightarrow> date \<Rightarrow> date \<Rightarrow> (string \<times> 'f json) list" where
  "download_params account_type account_display_name account_nickname token start_date end_date =
     [(''fileType'', JStr ''QFX''),
      (''ofxVersion'', JStr ''102''),
      (''sessionId'', JStr ''tng''),
      (''orgName'', JStr ''Tangerine''),
      (''bankId'', JStr ''0614''),
      (''language'', JStr ''eng''),
      (''acctType'', JStr account_type),
      (''acctNum'', account_display_name),
      (''acctName'', account_nickname),
      (''userDefined'', token),
      (''startDate'', JStr (strftime_Ymd start_date)),
      (''endDate'', JStr (strftime_Ymd end_date)),
      (''orgId'', JInt 10951),
      (''custom.tag'', JStr ''customValue''),
      (''csvheader'', JStr ''Date,Transaction,Name,Memo,Amount'')]"

definition download_request ::
  "('f json \<Rightarrow> string) \<Rightarrow> string \<Rightarrow> 'f json \<Rightarrow> 'f json \<Rightarrow> 'f json \<Rightarrow> date \<Rightarrow> date
     \<Rightarrow> 'f request" where
  "download_request repr account_type account_display_name account_nickname token
       start_date end_date =
     (let filename = py_str repr account_nickname @ ''.QFX'';
          params = download_params account_type account_display_name account_nickname token
                     start_date end_date
      in \<lparr>meth = GET,
          url = ''https://ofx.tangerine.ca/'' @ quote filename @ ''?'' @ urlencode repr params,
          headers = [(''Referer'', Some ''https://www.tangerine.ca/app/'')],
          json_data = None\<rparr>)"

definition fetch_statement ::
  "'f server \<Rightarrow> ('f json \<Rightarrow> string) \<Rightarrow> string \<Rightarrow> 'f json \<Rightarrow> 'f json \<Rightarrow> date \<Rightarrow> date \<Rightarrow> bool
     \<Rightarrow> ('f, string) io" where
  "fetch_statement srv repr account_type account_display_name account_nickname
       start_date end_date save =
     io_bind (get_transaction_download_token srv) (\<lambda>token.
       io_bind (session_send srv
                  (download_request repr account_type account_display_name account_nickname
                     token start_date end_date)) (\<lambda>response.
         io_bind (raise_for_status response) (\<lambda>_.
           if save then
             (let local_filename =
                    py_str repr account_nickname @ ''_'' @ strftime_Ymd start_date @ ''-''
                      @ strftime_Ymd end_date @ ''.QFX''
              in io_bind (write_file local_filename (body_text response)) (\<lambda>_.
                   io_return local_filename))
           else io_return (body_text response))))"

text \<open>\<^verbatim>\<open>download_ofx\<close> is the two parts in sequence.\<close>

definition download_ofx ::
  "'f server \<Rightarrow> ('f json \<Rightarrow> string) \<Rightarrow> 'f json \<Rightarrow> date \<Rightarrow> date \<Rightarrow> bool \<Rightarrow> ('f, string) io" where
  "download_ofx srv repr account start_date end_date save =
     io_bind (resolve_account srv repr account)
       (\<lambda>(account_type, account_display_name, account_nickname).
         fetch_statement srv repr account_type account_display_name account_nickname
           start_date end_date save)"

text \<open>
  \<^verbatim>\<open>
  @api_response()
  def move_money(self, account_id, from_account, to_account, amount: float, currency, when):
      path = '/v1/accounts/{}/transactions/movemoney'.format(account_id)
      data = {
          'transfers': {'when': when, 'amount': amount, 'to_account': to_account,
                        'from_account': from_account, 'currency': currency},
          'validate_only': False
      }
      print(data)
      response = self._api_post(path, data)
      print(response.json())
  \<close>
  \<open>move_money_fn\<close> is the function under the decorator: it ends without a
  \<^verbatim>\<open>return\<close> statement, so what it returns is \<^verbatim>\<open>None\<close>.
\<close>

definition move_money_data ::
  "'f json \<Rightarrow> 'f json \<Rightarrow> 'f json \<Rightarrow> 'f json \<Rightarrow> 'f json \<Rightarrow> 'f json" where
  "move_money_data from_account to_account amount currency whn =
     JObj [(''transfers'',
              JObj [(''when'', whn),
                    (''amount'', amount),
                    (''to_account'', to_account),
                    (''from_account'', from_account),
                    (''currency'', currency)]),
           (''validate_only'', JBool False)]"

definition move_money_fn ::
  "'f server \<Rightarrow> ('f json \<Rightarrow> string) \<Rightarrow> 'f json \<Rightarrow> 'f json \<Rightarrow> 'f json \<Rightarrow> 'f json \<Rightarrow> 'f json
     \<Rightarrow> 'f json \<Rightarrow> ('f, 'f json) io" where
  "move_money_fn srv repr account_id from_account to_account amount currency whn =
     (let path = ''/v1/accounts/'' @ py_str repr account_id @ ''/transactions/movemoney'';
          data = move_money_data from_account to_account amount currency whn
      in io_bind (py_print data) (\<lambda>_.
           io_bind (api_post srv path data) (\<lambda>response.
             io_bind (response_json response) (\<lambda>decoded.
               io_bind (py_print decoded) (\<lambda>_.
                 io_return JNull)))))"

definition move_money ::
  "'f server \<Rightarrow> ('f json \<Rightarrow> string) \<Rightarrow> 'f json \<Rightarrow> 'f json \<Rightarrow> 'f json \<Rightarrow> 'f json \<Rightarrow> 'f json
     \<Rightarrow> 'f json \<Rightarrow> ('f, 'f json) io" where
  "move_money srv repr account_id from_account to_account amount currency whn =
     api_response [] True
       (move_money_fn srv repr account_id from_account to_account amount currency whn)"

text \<open>
  \<^verbatim>\<open>
  @api_response()
  def email_money(self, source_account_number, recipient_sequence_number, amount, when,
                  scheduled_date: datetime.date, emt_type='INTERAC_EMT'):
      path = '/v1/accounts/{}/transactions/emts'.format(source_account_number)
      data = {
          'validate_only': False,
          'emt': {'emt_type': emt_type, 'amount': amount,
                  'recipient_sequence_number': recipient_sequence_number,
                  'message': '', 'accepted_terms_and_conditions': True,
                  'when': when, 'scheduled_date': scheduled_date.strftime('%Y-%m-%d')}
      }
      response = self._api_post(path, data)
      print(response.json())
  \<close>
\<close>

definition email_money_data ::
  "'f json \<Rightarrow> 'f json \<Rightarrow> 'f json \<Rightarrow> date \<Rightarrow> 'f json \<Rightarrow> 'f json" where
  "email_money_data recipient_sequence_number amount whn scheduled_date emt_type =
     JObj [(''validate_only'', JBool False),
           (''emt'',
              JObj [(''emt_type'', emt_type),
                    (''amount'', amount),
                    (''recipient_sequence_number'', recipient_sequence_number),
                    (''message'', JStr []),
                    (''accepted_terms_and_conditions'', JBool True),
                    (''when'', whn),
                    (''scheduled_date'', JStr (strftime_Y_m_d scheduled_date))])]"

definition email_money_fn ::
  "'f server \<Rightarrow> ('f json \<Rightarrow> string) \<Rightarrow> 'f json \<Rightarrow> 'f json \<Rightarrow> 'f json \<Rightarrow> 'f json \<Rightarrow> date
     \<Rightarrow> 'f json \<Rightarrow> ('f, 'f json) io" where
  "email_money_fn srv repr source_account_number recipient_sequence_number amount whn
       scheduled_date emt_type =
     (let path = ''/v1/accounts/'' @ py_str repr source_account_number @ ''/transactions/emts'';
          data = email_money_data recipient_sequence_number amount whn scheduled_date emt_type
      in io_bind (api_post srv path data) (\<lambda>response.
           io_bind (response_json response) (\<lambda>decoded.
             io_bind (py_print decoded) (\<lambda>_.
               io_return JNull))))"

definition email_money ::
  "'f server \<Rightarrow> ('f json \<Rightarrow> string) \<Rightarrow> 'f json \<Rightarrow> 'f json \<Rightarrow> 'f json \<Rightarrow> 'f json \<Rightarrow> date
     \<Rightarrow> 'f json \<Rightarrow> ('f, 'f json) io" where
  "email_money srv repr source_account_number recipient_sequence_number amount whn
       scheduled_date emt_type =
     api_response [] True
       (email_money_fn srv repr source_account_number recipient_sequence_number amount whn
          scheduled_date emt_type)"

section \<open>Example inputs\<close>

text \<open>
  A fresh session in an empty working directory, a server that answers every request with
  the same response, and two envelopes.
\<close>

definition empty_world :: "unit world" where
  "empty_world =
     \<lparr>cookies = Map.empty, exchanges = [], files = Map.empty, writable = (\<lambda>_. True),
      printed = []\<rparr>"

definition no_repr :: "unit json \<Rightarrow> string" where
  "no_repr v = []"

definition success_envelope :: "unit json" where
  "success_envelope =
     JObj [(''response_status'', JObj [(''status_code'', JStr ''SUCCESS'')]),
           (''customer'', JStr ''C-1''),
           (''token'', JStr ''tok-1''),
           (''account_summary'',
              JObj [(''display_name'', JStr ''5555 1111''),
                    (''account_nick_name'', JStr ''Card'')])]"

definition failure_envelope :: "unit json" where
  "failure_envelope =
     JObj [(''response_status'', JObj [(''status_code'', JStr ''FAILURE'')]),
           (''customer'', JStr ''C-1'')]"

definition fixed_response :: "nat \<Rightarrow> unit response" where
  "fixed_response code =
     \<lparr>status_code = code, body_text = ''OFXHEADER:100'', body_json = Some success_envelope,
      set_cookies = Map.empty\<rparr>"

definition fixed_server :: "nat \<Rightarrow> unit server" where
  "fixed_server code w req = Some (fixed_response code)"

definition chequing_account :: "unit json" where
  "chequing_account =
     JObj [(''type'', JStr ''CHEQUING''),
           (''number'', JStr ''3001''),
           (''display_name'', JStr ''3001 2002''),
           (''nickname'', JStr ''Daily'')]"

definition credit_card_account :: "unit json" where
  "credit_card_account = JObj [(''type'', JStr ''CREDIT_CARD''), (''number'', JStr ''X'')]"

definition loan_account :: "unit json" where
  "loan_account = JObj [(''type'', JStr ''LOAN''), (''number'', JStr ''7'')]"

definition jan_1 :: date where
  "jan_1 = \<lparr>year = 2023, month = 1, day = 1\<rparr>"

definition jan_31 :: date where
  "jan_31 = \<lparr>year = 2023, month = 1, day = 31\<rparr>"

definition logged_in_world :: "unit world" where
  "logged_in_world = empty_world\<lparr>cookies := [''TRANSACTION_TOKEN'' \<mapsto> ''tt-9'']\<rparr>"

text \<open>
  An example login flow: \<open>start\<close> does nothing, \<open>end\<close> sends a logout request and raises
  for an error status.
\<close>

definition example_start :: "(unit, unit) io" where
  "example_start = io_return ()"

definition example_end :: "unit server \<Rightarrow> (unit, unit) io" where
  "example_end srv = io_bind (session_send srv (get_request ''/logout'')) raise_for_status"

section \<open>Properties\<close>

subsection \<open>Sequencing\<close>

lemmas io_defs = io_return_def io_raise_def io_lift_def io_bind_def

lemma io_bind_Inr: "m w = (Inr x, w') \<Longrightarrow> io_bind m f w = f x w'"
  by (simp add: io_bind_def)

lemma io_bind_Inl: "m w = (Inl e, w') \<Longrightarrow> io_bind m f w = (Inl e, w')"
  by (simp add: io_bind_def)

lemma io_bind_lift_Inr [simp]: "io_bind (io_lift (Inr x)) f = f x"
  by (rule ext) (simp add: io_bind_def io_lift_def)

lemma io_bind_lift_Inl [simp]: "io_bind (io_lift (Inl e)) f = io_raise e"
  by (rule ext) (simp add: io_bind_def io_lift_def io_raise_def)

lemma io_bind_return [simp]: "io_bind (io_return x) f = f x"
  by (rule ext) (simp add: io_bind_def io_return_def)

lemma io_bind_raise [simp]: "io_bind (io_raise e) f = io_raise e"
  by (rule ext) (simp add: io_bind_def io_raise_def)

subsection \<open>Evaluating strings\<close>

lemma str_nat_small: "n < 10 \<Longrightarrow> str_nat n = [digit_char n]"
  by (simp add: str_nat.simps)

lemma str_nat_large: "\<not> n < 10 \<Longrightarrow> str_nat n = str_nat (n div 10) @ [digit_char (n mod 10)]"
  by (subst str_nat.simps) simp

lemma length_str_nat_year: "1000 \<le> y \<Longrightarrow> y \<le> 9999 \<Longrightarrow> length (str_nat y) = 4"
  by (simp add: str_nat_large str_nat_small)

lemma length_two_digits: "n \<le> 99 \<Longrightarrow> length (zero_pad 2 (str_nat n)) = 2"
  by (cases "n < 10") (simp_all add: zero_pad_def str_nat_large str_nat_small)

lemma length_strftime_Ymd:
  "valid_date d \<Longrightarrow> 1000 \<le> year d \<Longrightarrow> length (strftime_Ymd d) = 8"
  by (simp add: strftime_Ymd_def valid_date_def length_str_nat_year length_two_digits)

lemmas str_eval = str_nat_small str_nat_large digit_char_def zero_pad_def str_int_def py_str_def
  strftime_Ymd_def strftime_Y_m_d_def strftime_midnight_def
  always_safe_def percent_encode_def quote_safe_def quote_def quote_plus_def urlencode_def

text \<open>Before the year 1000 the year has fewer than four digits.\<close>

lemma strftime_Ymd_year_999:
  "strftime_Ymd \<lparr>year = 999, month = 1, day = 1\<rparr> = ''9990101''
   \<and> strftime_Y_m_d \<lparr>year = 999, month = 1, day = 1\<rparr> = ''999-01-01''"
  by (simp add: str_eval)

subsection \<open>What a request leaves behind\<close>

lemma api_response_snd: "snd (api_response root_key chk fn w) = snd (fn w)"
  by (cases "fn w") (auto simp: api_response_def io_defs split: sum.splits)

lemma session_send_exchanges:
  "exchanges (snd (session_send srv req w)) = exchanges w @ [(req, srv w req)]"
  by (simp add: session_send_def split: option.splits)

lemma session_send_frame:
  "files (snd (session_send srv req w)) = files w
   \<and> writable (snd (session_send srv req w)) = writable w
   \<and> printed (snd (session_send srv req w)) = printed w"
  by (simp add: session_send_def split: option.splits)

lemma api_get_snd: "snd (api_get srv path w) = snd (session_send srv (get_request path) w)"
  by (cases "session_send srv (get_request path) w")
     (auto simp: api_get_def raise_for_status_def response_json_def io_defs
           split: sum.splits option.splits)

lemma get_account_exchanges:
  "exchanges (snd (get_account srv repr account_id w)) =
     exchanges w @
       [(get_request (''/v1/accounts/'' @ py_str repr account_id @ ''?billing-cycle-ranges=true''),
         srv w (get_request
                  (''/v1/accounts/'' @ py_str repr account_id @ ''?billing-cycle-ranges=true'')))]"
  by (simp add: get_account_def api_response_snd api_get_snd session_send_exchanges)

lemma example_token:
  "get_transaction_download_token (fixed_server 200) empty_world
     = (Inr (JStr ''tok-1''),
        empty_world\<lparr>exchanges :=
          [(get_request ''/v1/customers/my/security/transaction-download-token'',
            Some (fixed_response 200))]\<rparr>)"
  by (simp add: get_transaction_download_token_def api_response_def api_get_def
        session_send_def raise_for_status_def response_json_def io_defs subscript_def
        fixed_server_def fixed_response_def success_envelope_def empty_world_def)

lemma fixed_server_token:
  "fst (get_transaction_download_token (fixed_server 200) w) = Inr (JStr ''tok-1'')"
  by (simp add: get_transaction_download_token_def api_response_def api_get_def
        session_send_def raise_for_status_def response_json_def io_defs subscript_def
        fixed_server_def fixed_response_def success_envelope_def)

subsection \<open>The envelope decoder\<close>

text \<open>
  C1. With the status check on, an envelope whose \<open>response_status.status_code\<close> is
  \<open>"SUCCESS"\<close> is answered with the value under the payload key, or with the whole
  envelope when no payload key is given; an envelope with any other status code raises
  \<open>APIResponseError\<close> carrying the envelope.
\<close>

theorem api_response_enforced:
  assumes "fn w = (Inr env, w')"
    and "subscript env ''response_status'' = Inr rs"
    and "subscript rs ''status_code'' = Inr sc"
  shows "(sc = JStr ''SUCCESS'' \<and> root_key \<noteq> [] \<and> subscript env root_key = Inr v
            \<longrightarrow> api_response root_key True fn w = (Inr v, w'))
       \<and> (sc = JStr ''SUCCESS'' \<and> root_key = []
            \<longrightarrow> api_response root_key True fn w = (Inr env, w'))
       \<and> (sc \<noteq> JStr ''SUCCESS''
            \<longrightarrow> api_response root_key True fn w = (Inl (APIResponseError env), w'))"
  using assms by (simp add: api_response_def io_defs)

theorem api_response_enforced_witness:
  "api_response ''customer'' True (io_return success_envelope) empty_world
     = (Inr (JStr ''C-1''), empty_world)
   \<and> api_response [] True (io_return success_envelope) empty_world
     = (Inr success_envelope, empty_world)
   \<and> api_response ''customer'' True (io_return failure_envelope) empty_world
     = (Inl (APIResponseError failure_envelope), empty_world)"
  using api_response_enforced [of "io_return success_envelope" empty_world success_envelope
      empty_world "JObj [(''status_code'', JStr ''SUCCESS'')]" "JStr ''SUCCESS''" "''customer''"
      "JStr ''C-1''"]
    api_response_enforced [of "io_return success_envelope" empty_world success_envelope
      empty_world "JObj [(''status_code'', JStr ''SUCCESS'')]" "JStr ''SUCCESS''" "[]"]
    api_response_enforced [of "io_return failure_envelope" empty_world failure_envelope
      empty_world "JObj [(''status_code'', JStr ''FAILURE'')]" "JStr ''FAILURE''" "''customer''"]
  by (simp add: io_return_def subscript_def success_envelope_def failure_envelope_def)

subsection \<open>Statement download: the account type\<close>

text \<open>
  C4. An account whose type is none of \<open>CHEQUING\<close>, \<open>SAVINGS\<close> and \<open>CREDIT_CARD\<close>
  makes \<open>download_ofx\<close> raise \<open>UnsupportedAccountTypeForDownload\<close> with that type, and
  the world is left as it was: no request has been sent.
\<close>

theorem download_ofx_unsupported_type:
  assumes "subscript account ''type'' = Inr t"
    and "t \<notin> {JStr ''CHEQUING'', JStr ''SAVINGS'', JStr ''CREDIT_CARD''}"
  shows "download_ofx srv repr account start_date end_date save w
           = (Inl (UnsupportedAccountTypeForDownload t), w)"
  using assms by (simp add: download_ofx_def resolve_account_def) (simp add: io_raise_def)

theorem download_ofx_unsupported_type_witness:
  "download_ofx (fixed_server 200) no_repr loan_account jan_1 jan_31 True empty_world
     = (Inl (UnsupportedAccountTypeForDownload (JStr ''LOAN'')), empty_world)
   \<and> exchanges empty_world = []"
  using download_ofx_unsupported_type [of loan_account "JStr ''LOAN''" "fixed_server 200" no_repr
      jan_1 jan_31 True empty_world]
  by (simp add: subscript_def loan_account_def empty_world_def)

text \<open>
  The requests of the second part of \<open>download_ofx\<close>: the token request, and after a token
  has come back the download request built from the account type, the two display fields and
  the token. Nothing else is sent.
\<close>

lemma token_exchanges:
  "exchanges (snd (get_transaction_download_token srv w)) =
     exchanges w @
       [(get_request ''/v1/customers/my/security/transaction-download-token'',
         srv w (get_request ''/v1/customers/my/security/transaction-download-token''))]"
  by (simp add: get_transaction_download_token_def api_response_snd api_get_snd
        session_send_exchanges)

lemma fetch_statement_exchanges:
  "exchanges (snd (fetch_statement srv repr account_type display_name nickname
                     start_date end_date save w)) =
     exchanges w @
       (get_request ''/v1/customers/my/security/transaction-download-token'',
        srv w (get_request ''/v1/customers/my/security/transaction-download-token''))
       # (case fst (get_transaction_download_token srv w) of
            Inl e \<Rightarrow> []
          | Inr token \<Rightarrow>
              [(download_request repr account_type display_name nickname token
                  start_date end_date,
                srv (snd (get_transaction_download_token srv w))
                  (download_request repr account_type display_name nickname token
                     start_date end_date))])"
proof (cases "get_transaction_download_token srv w")
  case (Pair r w1)
  have w1: "exchanges w1 =
      exchanges w @
        [(get_request ''/v1/customers/my/security/transaction-download-token'',
          srv w (get_request ''/v1/customers/my/security/transaction-download-token''))]"
    using token_exchanges [of srv w] Pair by simp
  show ?thesis
  proof (cases r)
    case (Inl e)
    with Pair w1 show ?thesis
      by (simp add: fetch_statement_def io_bind_Inl)
  next
    case (Inr token)
    with Pair w1 show ?thesis
      by (simp add: fetch_statement_def Let_def io_defs session_send_def raise_for_status_def
            write_file_def split: option.splits)
  qed
qed

text \<open>
  C2. For an account of type \<open>CHEQUING\<close> or \<open>SAVINGS\<close> the download account type is
  \<open>"SAVINGS"\<close> and the display name and nickname are the account record's own; choosing
  them leaves the world as it was, so no \<open>get_account\<close> request is sent: the requests of
  the whole download are the token request and the download request with these three
  values.
\<close>

theorem download_ofx_chequing_savings:
  assumes "subscript account ''type'' = Inr (JStr t)"
    and "t = ''CHEQUING'' \<or> t = ''SAVINGS''"
    and "subscript account ''display_name'' = Inr display_name"
    and "subscript account ''nickname'' = Inr nickname"
  shows "resolve_account srv repr account w = (Inr (''SAVINGS'', display_name, nickname), w)
       \<and> download_ofx srv repr account start_date end_date save w
           = fetch_statement srv repr ''SAVINGS'' display_name nickname start_date end_date save w
       \<and> exchanges (snd (download_ofx srv repr account start_date end_date save w)) =
           exchanges w @
             (get_request ''/v1/customers/my/security/transaction-download-token'',
              srv w (get_request ''/v1/customers/my/security/transaction-download-token''))
             # (case fst (get_transaction_download_token srv w) of
                  Inl e \<Rightarrow> []
                | Inr token \<Rightarrow>
                    [(download_request repr ''SAVINGS'' display_name nickname token
                        start_date end_date,
                      srv (snd (get_transaction_download_token srv w))
                        (download_request repr ''SAVINGS'' display_name nickname token
                           start_date end_date))])"
proof -
  have res: "resolve_account srv repr account = io_return (''SAVINGS'', display_name, nickname)"
    using assms by (auto simp: resolve_account_def)
  have dl: "download_ofx srv repr account start_date end_date save w
      = fetch_statement srv repr ''SAVINGS'' display_name nickname start_date end_date save w"
    by (simp add: download_ofx_def res)
  show ?thesis
    unfolding dl fetch_statement_exchanges by (simp add: res io_return_def)
qed

theorem download_ofx_chequing_savings_witness:
  "resolve_account (fixed_server 200) no_repr chequing_account empty_world
     = (Inr (''SAVINGS'', JStr ''3001 2002'', JStr ''Daily''), empty_world)
   \<and> map (\<lambda>x. url (fst x))
         (exchanges (snd (download_ofx (fixed_server 200) no_repr chequing_account
                            jan_1 jan_31 False empty_world)))
     = [''https://secure.tangerine.ca/web/rest/v1/customers/my/security/transaction-download-token'',
        ''https://ofx.tangerine.ca/Daily.QFX?fileType=QFX&ofxVersion=102&sessionId=tng&orgName=Tangerine&bankId=0614&language=eng&acctType=SAVINGS&acctNum=3001+2002&acctName=Daily&userDefined=tok-1&startDate=20230101&endDate=20230131&orgId=10951&custom.tag=customValue&csvheader=Date%2CTransaction%2CName%2CMemo%2CAmount'']"
proof -
  have h1: "subscript chequing_account ''type'' = Inr (JStr ''CHEQUING'')"
    and h3: "subscript chequing_account ''display_name'' = Inr (JStr ''3001 2002'')"
    and h4: "subscript chequing_account ''nickname'' = Inr (JStr ''Daily'')"
    by (simp_all add: subscript_def chequing_account_def)
  have h2: "''CHEQUING'' = ''CHEQUING'' \<or> ''CHEQUING'' = ''SAVINGS''"
    by simp
  note tok = example_token
  have dl: "url (download_request no_repr ''SAVINGS'' (JStr ''3001 2002'') (JStr ''Daily'')
                   (JStr ''tok-1'') jan_1 jan_31)
      = ''https://ofx.tangerine.ca/Daily.QFX?fileType=QFX&ofxVersion=102&sessionId=tng&orgName=Tangerine&bankId=0614&language=eng&acctType=SAVINGS&acctNum=3001+2002&acctName=Daily&userDefined=tok-1&startDate=20230101&endDate=20230131&orgId=10951&custom.tag=customValue&csvheader=Date%2CTransaction%2CName%2CMemo%2CAmount''"
    by (simp add: download_request_def download_params_def str_eval jan_1_def jan_31_def)
  note t = download_ofx_chequing_savings [OF h1 h2 h3 h4, of "fixed_server 200" no_repr
      empty_world jan_1 jan_31 False]
  note r = t [THEN conjunct1]
  note e = t [THEN conjunct2, THEN conjunct2]
  show ?thesis
    by (simp add: r e tok dl) (simp add: get_request_def empty_world_def)
qed

text \<open>
  C3. For an account of type \<open>CREDIT_CARD\<close> the account's details are looked up with
  \<open>get_account\<close> on the account's number: that request is the first one \<open>download_ofx\<close>
  sends, whatever comes back. When the lookup gives a detail record, its \<open>display_name\<close>
  and \<open>account_nick_name\<close> are the display name and nickname the download goes on with,
  under the account type \<open>"CREDITLINE"\<close>: the requests of the whole download are the
  lookup, the token request and the download request built from these three values.
\<close>

theorem download_ofx_credit_card:
  assumes "subscript account ''type'' = Inr (JStr ''CREDIT_CARD'')"
    and "subscript account ''number'' = Inr number"
  shows "snd (resolve_account srv repr account w) = snd (get_account srv repr number w)
       \<and> exchanges (snd (get_account srv repr number w)) =
           exchanges w @
             [(get_request (''/v1/accounts/'' @ py_str repr number @ ''?billing-cycle-ranges=true''),
               srv w (get_request
                        (''/v1/accounts/'' @ py_str repr number @ ''?billing-cycle-ranges=true'')))]
       \<and> (\<exists>rest. exchanges (snd (download_ofx srv repr account start_date end_date save w)) =
             exchanges w @
               (get_request (''/v1/accounts/'' @ py_str repr number @ ''?billing-cycle-ranges=true''),
                srv w (get_request
                         (''/v1/accounts/'' @ py_str repr number @ ''?billing-cycle-ranges=true'')))
               # rest)
       \<and> (\<forall>details display_name nickname w1.
             get_account srv repr number w = (Inr details, w1)
             \<and> subscript details ''display_name'' = Inr display_name
             \<and> subscript details ''account_nick_name'' = Inr nickname
             \<longrightarrow> resolve_account srv repr account w
                   = (Inr (''CREDITLINE'', display_name, nickname), w1)
                 \<and> download_ofx srv repr account start_date end_date save w
                   = fetch_statement srv repr ''CREDITLINE'' display_name nickname
                       start_date end_date save w1
                 \<and> exchanges (snd (download_ofx srv repr account start_date end_date save w)) =
                     exchanges w @
                       (get_request
                          (''/v1/accounts/'' @ py_str repr number @ ''?billing-cycle-ranges=true''),
                        srv w (get_request
                                 (''/v1/accounts/'' @ py_str repr number
                                    @ ''?billing-cycle-ranges=true'')))
                       # (get_request ''/v1/customers/my/security/transaction-download-token'',
                          srv w1
                            (get_request ''/v1/customers/my/security/transaction-download-token''))
                       # (case fst (get_transaction_download_token srv w1) of
                            Inl e \<Rightarrow> []
                          | Inr token \<Rightarrow>
                              [(download_request repr ''CREDITLINE'' display_name nickname token
                                  start_date end_date,
                                srv (snd (get_transaction_download_token srv w1))
                                  (download_request repr ''CREDITLINE'' display_name nickname
                                     token start_date end_date))]))"
proof -
  let ?lookup = "(get_request
        (''/v1/accounts/'' @ py_str repr number @ ''?billing-cycle-ranges=true''),
      srv w (get_request
               (''/v1/accounts/'' @ py_str repr number @ ''?billing-cycle-ranges=true'')))"
  have res: "resolve_account srv repr account w =
      io_bind (get_account srv repr number) (\<lambda>account_details.
        io_bind (io_lift (subscript account_details ''display_name'')) (\<lambda>account_display_name.
          io_bind (io_lift (subscript account_details ''account_nick_name'')) (\<lambda>account_nickname.
            io_return (''CREDITLINE'', account_display_name, account_nickname)))) w"
    using assms by (simp add: resolve_account_def)
  have a: "snd (resolve_account srv repr account w) = snd (get_account srv repr number w)"
    unfolding res
    by (cases "get_account srv repr number w") (auto simp: io_defs split: sum.splits)
  have b: "exchanges (snd (get_account srv repr number w)) = exchanges w @ [?lookup]"
    by (rule get_account_exchanges)
  have first: "\<exists>rest. exchanges (snd (download_ofx srv repr account start_date end_date save w))
      = exchanges w @ ?lookup # rest"
  proof (cases "resolve_account srv repr account w")
    case (Pair r w')
    with a b have w': "exchanges w' = exchanges w @ [?lookup]" by simp
    show ?thesis
    proof (cases r)
      case (Inl e)
      with Pair have "download_ofx srv repr account start_date end_date save w = (Inl e, w')"
        by (simp add: download_ofx_def io_bind_def)
      with w' show ?thesis by simp
    next
      case (Inr triple)
      obtain account_type display_name nickname
        where triple: "triple = (account_type, display_name, nickname)"
        by (cases triple)
      from Pair Inr triple
      have "download_ofx srv repr account start_date end_date save w
          = fetch_statement srv repr account_type display_name nickname
              start_date end_date save w'"
        by (simp add: download_ofx_def io_bind_def)
      then show ?thesis
        by (simp add: fetch_statement_exchanges w')
    qed
  qed
  have c: "resolve_account srv repr account w = (Inr (''CREDITLINE'', display_name, nickname), w1)
         \<and> download_ofx srv repr account start_date end_date save w
             = fetch_statement srv repr ''CREDITLINE'' display_name nickname
                 start_date end_date save w1
         \<and> exchanges (snd (download_ofx srv repr account start_date end_date save w)) =
             exchanges w @
               ?lookup
               # (get_request ''/v1/customers/my/security/transaction-download-token'',
                  srv w1 (get_request ''/v1/customers/my/security/transaction-download-token''))
               # (case fst (get_transaction_download_token srv w1) of
                    Inl e \<Rightarrow> []
                  | Inr token \<Rightarrow>
                      [(download_request repr ''CREDITLINE'' display_name nickname token
                          start_date end_date,
                        srv (snd (get_transaction_download_token srv w1))
                          (download_request repr ''CREDITLINE'' display_name nickname
                             token start_date end_date))])"
    if "get_account srv repr number w = (Inr details, w1)"
      and "subscript details ''display_name'' = Inr display_name"
      and "subscript details ''account_nick_name'' = Inr nickname"
    for details display_name nickname w1
  proof -
    have r: "resolve_account srv repr account w
        = (Inr (''CREDITLINE'', display_name, nickname), w1)"
      unfolding res using that
      by (simp add: io_bind_Inr [of "get_account srv repr number" w details w1])
         (simp add: io_return_def)
    then have d: "download_ofx srv repr account start_date end_date save w
        = fetch_statement srv repr ''CREDITLINE'' display_name nickname
            start_date end_date save w1"
      by (simp add: download_ofx_def io_bind_def)
    from b that(1) have w1: "exchanges w1 = exchanges w @ [?lookup]" by simp
    show ?thesis
      unfolding d using r by (simp add: fetch_statement_exchanges w1)
  qed
  from a b first c show ?thesis by blast
qed

theorem download_ofx_credit_card_witness:
  "fst (resolve_account (fixed_server 200) no_repr credit_card_account empty_world)
     = Inr (''CREDITLINE'', JStr ''5555 1111'', JStr ''Card'')
   \<and> map (\<lambda>x. url (fst x))
         (exchanges (snd (download_ofx (fixed_server 200) no_repr credit_card_account
                            jan_1 jan_31 False empty_world)))
     = [''https://secure.tangerine.ca/web/rest/v1/accounts/X?billing-cycle-ranges=true'',
        ''https://secure.tangerine.ca/web/rest/v1/customers/my/security/transaction-download-token'',
        ''https://ofx.tangerine.ca/Card.QFX?fileType=QFX&ofxVersion=102&sessionId=tng&orgName=Tangerine&bankId=0614&language=eng&acctType=CREDITLINE&acctNum=5555+1111&acctName=Card&userDefined=tok-1&startDate=20230101&endDate=20230131&orgId=10951&custom.tag=customValue&csvheader=Date%2CTransaction%2CName%2CMemo%2CAmount'']"
proof -
  have h1: "subscript credit_card_account ''type'' = Inr (JStr ''CREDIT_CARD'')"
    and h2: "subscript credit_card_account ''number'' = Inr (JStr ''X'')"
    by (simp_all add: subscript_def credit_card_account_def)
  note t = download_ofx_credit_card [OF h1 h2, of "fixed_server 200" no_repr empty_world
      jan_1 jan_31 False]
  have g: "get_account (fixed_server 200) no_repr (JStr ''X'') empty_world
      = (Inr (JObj [(''display_name'', JStr ''5555 1111''), (''account_nick_name'', JStr ''Card'')]),
         snd (get_account (fixed_server 200) no_repr (JStr ''X'') empty_world))"
    by (simp add: get_account_def api_response_def api_get_def session_send_def
          raise_for_status_def response_json_def io_defs subscript_def fixed_server_def
          fixed_response_def success_envelope_def empty_world_def)
  have d: "subscript (JObj [(''display_name'', JStr ''5555 1111''),
                            (''account_nick_name'', JStr ''Card'')]) ''display_name''
             = Inr (JStr ''5555 1111'')"
    and n: "subscript (JObj [(''display_name'', JStr ''5555 1111''),
                             (''account_nick_name'', JStr ''Card'')]) ''account_nick_name''
             = Inr (JStr ''Card'')"
    by (simp_all add: subscript_def)
  note s = t [THEN conjunct2, THEN conjunct2, THEN conjunct2, rule_format,
      where details = "JObj [(''display_name'', JStr ''5555 1111''),
                             (''account_nick_name'', JStr ''Card'')]"
        and display_name = "JStr ''5555 1111''" and nickname = "JStr ''Card''"
        and ?w1.0 = "snd (get_account (fixed_server 200) no_repr (JStr ''X'') empty_world)",
      OF conjI [OF g conjI [OF d n]]]
  note r = s [THEN conjunct1]
  note e = s [THEN conjunct2, THEN conjunct2]
  have dl: "url (download_request no_repr ''CREDITLINE'' (JStr ''5555 1111'') (JStr ''Card'')
                   (JStr ''tok-1'') jan_1 jan_31)
      = ''https://ofx.tangerine.ca/Card.QFX?fileType=QFX&ofxVersion=102&sessionId=tng&orgName=Tangerine&bankId=0614&language=eng&acctType=CREDITLINE&acctNum=5555+1111&acctName=Card&userDefined=tok-1&startDate=20230101&endDate=20230131&orgId=10951&custom.tag=customValue&csvheader=Date%2CTransaction%2CName%2CMemo%2CAmount''"
    by (simp add: download_request_def download_params_def str_eval jan_1_def jan_31_def)
  show ?thesis
    by (simp add: r e fixed_server_token dl)
       (simp add: get_request_def py_str_def empty_world_def)
qed

subsection \<open>Statement download: the result\<close>

text \<open>Requests change neither the files nor which of them can be written.\<close>

lemma api_get_frame:
  "files (snd (api_get srv path w)) = files w
   \<and> writable (snd (api_get srv path w)) = writable w"
  by (simp add: api_get_snd session_send_frame)

lemma get_account_frame:
  assumes "get_account srv repr number w = (r, w')"
  shows "files w' = files w \<and> writable w' = writable w"
proof -
  have "w' = snd (api_get srv
                   (''/v1/accounts/'' @ py_str repr number @ ''?billing-cycle-ranges=true'') w)"
    using assms api_response_snd [of "''account_summary''" True
        "api_get srv (''/v1/accounts/'' @ py_str repr number @ ''?billing-cycle-ranges=true'')" w]
    by (simp add: get_account_def)
  then show ?thesis by (simp add: api_get_frame)
qed

lemma resolve_account_frame:
  "files (snd (resolve_account srv repr account w)) = files w
   \<and> writable (snd (resolve_account srv repr account w)) = writable w"
  by (auto simp: resolve_account_def io_defs split: sum.splits prod.splits
        dest: get_account_frame)

lemma token_frame:
  "files (snd (get_transaction_download_token srv w)) = files w
   \<and> writable (snd (get_transaction_download_token srv w)) = writable w"
  by (simp add: get_transaction_download_token_def api_response_snd api_get_frame)

text \<open>
  C5. For a date range of the year 1000 or later: when the account has been resolved, the
  token has come back and the download request is answered with a status that
  \<open>raise_for_status\<close> lets pass, \<open>download_ofx\<close> with \<open>save = False\<close> returns the text of
  the response and the files are as they were; with \<open>save = True\<close>, where the file can be
  opened for writing, it returns the file name \<open>{nickname}_{start}-{end}.QFX\<close> with both
  dates written by \<open>strftime('%Y%m%d')\<close>, eight characters each, and that file now holds
  the text of the response.
\<close>

theorem download_ofx_save_flag:
  assumes "resolve_account srv repr account w = (Inr (account_type, display_name, nickname), w1)"
    and "get_transaction_download_token srv w1 = (Inr token, w2)"
    and "srv w2 (download_request repr account_type display_name nickname token
                   start_date end_date) = Some response"
    and "\<not> (400 \<le> status_code response \<and> status_code response < 600)"
    and "valid_date start_date" and "1000 \<le> year start_date"
    and "valid_date end_date" and "1000 \<le> year end_date"
  shows "length (strftime_Ymd start_date) = 8 \<and> length (strftime_Ymd end_date) = 8
       \<and> fst (download_ofx srv repr account start_date end_date False w)
           = Inr (body_text response)
       \<and> files (snd (download_ofx srv repr account start_date end_date False w)) = files w
       \<and> (writable w (py_str repr nickname @ ''_'' @ strftime_Ymd start_date @ ''-''
                        @ strftime_Ymd end_date @ ''.QFX'')
            \<longrightarrow> fst (download_ofx srv repr account start_date end_date True w)
                  = Inr (py_str repr nickname @ ''_'' @ strftime_Ymd start_date @ ''-''
                           @ strftime_Ymd end_date @ ''.QFX'')
                \<and> files (snd (download_ofx srv repr account start_date end_date True w))
                  = (files w)
                      (py_str repr nickname @ ''_'' @ strftime_Ymd start_date @ ''-''
                         @ strftime_Ymd end_date @ ''.QFX'' \<mapsto> body_text response))"
proof -
  have f1: "files w1 = files w" and wr1: "writable w1 = writable w"
    using resolve_account_frame [of srv repr account w] assms(1) by simp_all
  have f2: "files w2 = files w" and wr2: "writable w2 = writable w"
    using token_frame [of srv w1] assms(2) f1 wr1 by simp_all
  have dl: "download_ofx srv repr account start_date end_date save w
      = fetch_statement srv repr account_type display_name nickname start_date end_date save w1"
    for save
    using assms(1) by (simp add: download_ofx_def io_bind_def)
  have sent: "session_send srv
        (download_request repr account_type display_name nickname token start_date end_date) w2
      = (Inr response,
         w2\<lparr>exchanges := exchanges w2 @
               [(download_request repr account_type display_name nickname token
                   start_date end_date, Some response)],
             cookies := cookies w2 ++ set_cookies response\<rparr>)"
    using assms(3) by (simp add: session_send_def)
  have ok: "raise_for_status response = io_return ()"
    unfolding raise_for_status_def using assms(4) by (rule if_not_P)
  have no_save: "fetch_statement srv repr account_type display_name nickname start_date end_date
                   False w1
      = (Inr (body_text response),
         w2\<lparr>exchanges := exchanges w2 @
               [(download_request repr account_type display_name nickname token
                   start_date end_date, Some response)],
             cookies := cookies w2 ++ set_cookies response\<rparr>)"
    by (simp add: fetch_statement_def io_defs assms(2) sent ok)
  have with_save: "fetch_statement srv repr account_type display_name nickname start_date
                     end_date True w1
      = (Inr (py_str repr nickname @ ''_'' @ strftime_Ymd start_date @ ''-''
                @ strftime_Ymd end_date @ ''.QFX''),
         w2\<lparr>exchanges := exchanges w2 @
               [(download_request repr account_type display_name nickname token
                   start_date end_date, Some response)],
             cookies := cookies w2 ++ set_cookies response,
             files := (files w2)
               (py_str repr nickname @ ''_'' @ strftime_Ymd start_date @ ''-''
                  @ strftime_Ymd end_date @ ''.QFX'' \<mapsto> body_text response)\<rparr>)"
    if "writable w (py_str repr nickname @ ''_'' @ strftime_Ymd start_date @ ''-''
                      @ strftime_Ymd end_date @ ''.QFX'')"
    using that
    by (simp add: fetch_statement_def Let_def io_defs assms(2) sent ok write_file_def wr2)
  have len: "length (strftime_Ymd start_date) = 8 \<and> length (strftime_Ymd end_date) = 8"
    using assms(5-8) by (simp add: length_strftime_Ymd)
  show ?thesis
    unfolding dl using no_save with_save len by (simp add: f2)
qed

theorem download_ofx_save_flag_witness:
  "fst (download_ofx (fixed_server 200) no_repr chequing_account jan_1 jan_31 False empty_world)
     = Inr ''OFXHEADER:100''
   \<and> files (snd (download_ofx (fixed_server 200) no_repr chequing_account jan_1 jan_31 False
                    empty_world)) = Map.empty
   \<and> fst (download_ofx (fixed_server 200) no_repr chequing_account jan_1 jan_31 True empty_world)
     = Inr ''Daily_20230101-20230131.QFX''
   \<and> files (snd (download_ofx (fixed_server 200) no_repr chequing_account jan_1 jan_31 True
                    empty_world))
     = [''Daily_20230101-20230131.QFX'' \<mapsto> ''OFXHEADER:100'']
   \<and> length (strftime_Ymd jan_1) = 8 \<and> length (strftime_Ymd jan_31) = 8"
proof -
  have res: "resolve_account (fixed_server 200) no_repr chequing_account empty_world
      = (Inr (''SAVINGS'', JStr ''3001 2002'', JStr ''Daily''), empty_world)"
    by (simp add: resolve_account_def io_defs subscript_def chequing_account_def)
  have answer: "fixed_server 200
        (empty_world\<lparr>exchanges :=
           [(get_request ''/v1/customers/my/security/transaction-download-token'',
             Some (fixed_response 200))]\<rparr>)
        (download_request no_repr ''SAVINGS'' (JStr ''3001 2002'') (JStr ''Daily'')
           (JStr ''tok-1'') jan_1 jan_31)
      = Some (fixed_response 200)"
    by (simp add: fixed_server_def)
  have status: "\<not> (400 \<le> status_code (fixed_response 200)
                  \<and> status_code (fixed_response 200) < 600)"
    by (simp add: fixed_response_def)
  have name: "py_str no_repr (JStr ''Daily'') @ ''_'' @ strftime_Ymd jan_1 @ ''-''
                @ strftime_Ymd jan_31 @ ''.QFX'' = ''Daily_20230101-20230131.QFX''"
    by (simp add: str_eval jan_1_def jan_31_def)
  have can_write: "writable empty_world ''Daily_20230101-20230131.QFX''"
    by (simp add: empty_world_def)
  have d1: "valid_date jan_1" and y1: "1000 \<le> year jan_1"
    and d2: "valid_date jan_31" and y2: "1000 \<le> year jan_31"
    by (simp_all add: valid_date_def jan_1_def jan_31_def)
  note t = download_ofx_save_flag [OF res example_token answer status d1 y1 d2 y2,
      unfolded name]
  from t can_write show ?thesis
    by (simp add: fixed_response_def) (simp add: empty_world_def)
qed

subsection \<open>The transaction query\<close>

text \<open>
  C6. \<open>list_transactions(['acc1'], 2023-01-01, 2023-01-31)\<close> sends one \<open>GET\<close> request
  whose query string carries \<open>accountIdentifiers=acc1\<close>,
  \<open>periodFrom=2023-01-01T00:00:00.000Z\<close>, \<open>periodTo=2023-01-31T00:00:00.000Z\<close>,
  \<open>skip=0\<close> and \<open>hideAuthorizedStatus=True\<close>: the query string is the \<open>urlencode\<close> of
  these five parameters, and read back with \<open>parse_qsl\<close> it gives these names and values.
  In the address as it is sent the colons of the two timestamps are written \<open>%3A\<close>.
\<close>

theorem list_transactions_request:
  "exchanges (snd (list_transactions srv repr [''acc1'']
                     \<lparr>year = 2023, month = 1, day = 1\<rparr> \<lparr>year = 2023, month = 1, day = 31\<rparr> w))
     = exchanges w @
         [(\<lparr>meth = GET,
            url = ''https://secure.tangerine.ca/web/rest/pfm/v1/transactions?accountIdentifiers=acc1&hideAuthorizedStatus=True&periodFrom=2023-01-01T00%3A00%3A00.000Z&periodTo=2023-01-31T00%3A00%3A00.000Z&skip=0'',
            headers = [], json_data = None\<rparr>,
           srv w
            \<lparr>meth = GET,
             url = ''https://secure.tangerine.ca/web/rest/pfm/v1/transactions?accountIdentifiers=acc1&hideAuthorizedStatus=True&periodFrom=2023-01-01T00%3A00%3A00.000Z&periodTo=2023-01-31T00%3A00%3A00.000Z&skip=0'',
             headers = [], json_data = None\<rparr>)]
   \<and> urlencode repr
         [(''accountIdentifiers'', JStr ''acc1''),
          (''hideAuthorizedStatus'', JBool True),
          (''periodFrom'', JStr ''2023-01-01T00:00:00.000Z''),
          (''periodTo'', JStr ''2023-01-31T00:00:00.000Z''),
          (''skip'', JInt 0)]
     = ''accountIdentifiers=acc1&hideAuthorizedStatus=True&periodFrom=2023-01-01T00%3A00%3A00.000Z&periodTo=2023-01-31T00%3A00%3A00.000Z&skip=0''
   \<and> parse_qsl ''accountIdentifiers=acc1&hideAuthorizedStatus=True&periodFrom=2023-01-01T00%3A00%3A00.000Z&periodTo=2023-01-31T00%3A00%3A00.000Z&skip=0''
     = [(''accountIdentifiers'', ''acc1''),
        (''hideAuthorizedStatus'', ''True''),
        (''periodFrom'', ''2023-01-01T00:00:00.000Z''),
        (''periodTo'', ''2023-01-31T00:00:00.000Z''),
        (''skip'', ''0'')]"
proof -
  have q: "get_request
        (''/pfm/v1/transactions?'' @
           urlencode repr
             [(''accountIdentifiers'', JStr (str_join '','' [''acc1''])),
              (''hideAuthorizedStatus'', JBool True),
              (''periodFrom'', JStr (strftime_midnight \<lparr>year = 2023, month = 1, day = 1\<rparr>)),
              (''periodTo'', JStr (strftime_midnight \<lparr>year = 2023, month = 1, day = 31\<rparr>)),
              (''skip'', JInt 0)])
      = \<lparr>meth = GET,
         url = ''https://secure.tangerine.ca/web/rest/pfm/v1/transactions?accountIdentifiers=acc1&hideAuthorizedStatus=True&periodFrom=2023-01-01T00%3A00%3A00.000Z&periodTo=2023-01-31T00%3A00%3A00.000Z&skip=0'',
         headers = [], json_data = None\<rparr>"
    by (simp add: get_request_def str_eval)
  have sent: "exchanges (snd (list_transactions srv repr [''acc1'']
                     \<lparr>year = 2023, month = 1, day = 1\<rparr> \<lparr>year = 2023, month = 1, day = 31\<rparr> w))
     = exchanges w @
         [(\<lparr>meth = GET,
            url = ''https://secure.tangerine.ca/web/rest/pfm/v1/transactions?accountIdentifiers=acc1&hideAuthorizedStatus=True&periodFrom=2023-01-01T00%3A00%3A00.000Z&periodTo=2023-01-31T00%3A00%3A00.000Z&skip=0'',
            headers = [], json_data = None\<rparr>,
           srv w
            \<lparr>meth = GET,
             url = ''https://secure.tangerine.ca/web/rest/pfm/v1/transactions?accountIdentifiers=acc1&hideAuthorizedStatus=True&periodFrom=2023-01-01T00%3A00%3A00.000Z&periodTo=2023-01-31T00%3A00%3A00.000Z&skip=0'',
             headers = [], json_data = None\<rparr>)]"
    by (simp only: list_transactions_def Let_def api_response_snd api_get_snd
          session_send_exchanges q)
  have enc: "urlencode repr
         [(''accountIdentifiers'', JStr ''acc1''),
          (''hideAuthorizedStatus'', JBool True),
          (''periodFrom'', JStr ''2023-01-01T00:00:00.000Z''),
          (''periodTo'', JStr ''2023-01-31T00:00:00.000Z''),
          (''skip'', JInt 0)]
     = ''accountIdentifiers=acc1&hideAuthorizedStatus=True&periodFrom=2023-01-01T00%3A00%3A00.000Z&periodTo=2023-01-31T00%3A00%3A00.000Z&skip=0''"
    by (simp add: str_eval)
  have dec: "parse_qsl ''accountIdentifiers=acc1&hideAuthorizedStatus=True&periodFrom=2023-01-01T00%3A00%3A00.000Z&periodTo=2023-01-31T00%3A00%3A00.000Z&skip=0''
     = [(''accountIdentifiers'', ''acc1''),
        (''hideAuthorizedStatus'', ''True''),
        (''periodFrom'', ''2023-01-01T00:00:00.000Z''),
        (''periodTo'', ''2023-01-31T00:00:00.000Z''),
        (''skip'', ''0'')]"
    by (simp add: parse_qsl_def hex_value_def byte_char_def)
  from sent enc dec show ?thesis by (rule conjI [OF _ conjI])
qed

subsection \<open>The write pipeline\<close>

lemma api_post_exchanges:
  "exchanges (snd (api_post srv path data w)) =
     exchanges w @
       [(post_request (cookies w ''TRANSACTION_TOKEN'') path data,
         srv w (post_request (cookies w ''TRANSACTION_TOKEN'') path data))]"
  by (auto simp: api_post_def Let_def io_defs session_send_def raise_for_status_def
        split: option.splits)

lemma api_post_error_status:
  assumes "srv w (post_request (cookies w ''TRANSACTION_TOKEN'') path data) = Some resp"
    and "400 \<le> status_code resp" and "status_code resp < 600"
  shows "api_post srv path data w =
           (Inl (HTTPError (status_code resp)),
            w\<lparr>exchanges := exchanges w @
                  [(post_request (cookies w ''TRANSACTION_TOKEN'') path data, Some resp)],
                cookies := cookies w ++ set_cookies resp\<rparr>)"
  using assms by (simp add: api_post_def Let_def io_defs session_send_def raise_for_status_def)

lemma api_post_other_status:
  assumes "srv w (post_request (cookies w ''TRANSACTION_TOKEN'') path data) = Some resp"
    and "\<not> (400 \<le> status_code resp \<and> status_code resp < 600)"
  shows "fst (api_post srv path data w) = Inr resp"
  using assms
  by (auto simp: api_post_def Let_def io_defs session_send_def raise_for_status_def)

text \<open>
  C7. Every \<open>_api_post\<close> sends one \<open>POST\<close> request whose \<open>x-transaction-token\<close> header is
  what the session's cookie store holds under \<open>TRANSACTION_TOKEN\<close> at that moment. When the
  response has a client or server error status (400 to 599), \<open>raise_for_status\<close> raises
  \<open>HTTPError\<close> and nothing that follows the call runs: no decoding of the body is
  attempted. A response with any other status is returned to the caller.
\<close>

theorem api_post_token_and_status:
  "exchanges (snd (api_post srv path data w)) =
     exchanges w @
       [(post_request (cookies w ''TRANSACTION_TOKEN'') path data,
         srv w (post_request (cookies w ''TRANSACTION_TOKEN'') path data))]
   \<and> meth (post_request (cookies w ''TRANSACTION_TOKEN'') path data) = POST
   \<and> map_of (headers (post_request (cookies w ''TRANSACTION_TOKEN'') path data))
        ''x-transaction-token'' = Some (cookies w ''TRANSACTION_TOKEN'')
   \<and> (\<forall>resp then_do.
         srv w (post_request (cookies w ''TRANSACTION_TOKEN'') path data) = Some resp
         \<and> 400 \<le> status_code resp \<and> status_code resp < 600
         \<longrightarrow> fst (api_post srv path data w) = Inl (HTTPError (status_code resp))
             \<and> io_bind (api_post srv path data) then_do w
               = (Inl (HTTPError (status_code resp)), snd (api_post srv path data w)))
   \<and> (\<forall>resp.
         srv w (post_request (cookies w ''TRANSACTION_TOKEN'') path data) = Some resp
         \<and> \<not> (400 \<le> status_code resp \<and> status_code resp < 600)
         \<longrightarrow> fst (api_post srv path data w) = Inr resp)"
proof -
  have hdr: "map_of (headers (post_request (cookies w ''TRANSACTION_TOKEN'') path data))
      ''x-transaction-token'' = Some (cookies w ''TRANSACTION_TOKEN'')"
    by (simp add: post_request_def)
  have err: "fst (api_post srv path data w) = Inl (HTTPError (status_code resp))
      \<and> io_bind (api_post srv path data) then_do w
        = (Inl (HTTPError (status_code resp)), snd (api_post srv path data w))"
    if "srv w (post_request (cookies w ''TRANSACTION_TOKEN'') path data) = Some resp"
      and "400 \<le> status_code resp" and "status_code resp < 600"
    for resp and then_do :: "'a response \<Rightarrow> 'a world \<Rightarrow> ('a error + 'b) \<times> 'a world"
    using api_post_error_status [of srv w path data resp] that by (simp add: io_bind_def)
  have pass: "fst (api_post srv path data w) = Inr resp"
    if "srv w (post_request (cookies w ''TRANSACTION_TOKEN'') path data) = Some resp"
      and "\<not> (400 \<le> status_code resp \<and> status_code resp < 600)"
    for resp
    using api_post_other_status [of srv w path data resp] that by simp
  have m: "meth (post_request (cookies w ''TRANSACTION_TOKEN'') path data) = POST"
    by (simp add: post_request_def)
  from api_post_exchanges [of srv path data w] m hdr err pass show ?thesis
    by blast
qed

theorem api_post_token_and_status_witness:
  "map_of (headers (fst (last (exchanges
       (snd (api_post (fixed_server 500) ''/v1/accounts/3001/transactions/emts'' JNull
               logged_in_world))))))
     ''x-transaction-token'' = Some (Some ''tt-9'')
   \<and> fst (io_bind (api_post (fixed_server 500) ''/v1/accounts/3001/transactions/emts'' JNull)
            response_json logged_in_world)
     = Inl (HTTPError 500)"
proof -
  note t = api_post_token_and_status [of "fixed_server 500"
      "''/v1/accounts/3001/transactions/emts''" JNull logged_in_world]
  have tok: "cookies logged_in_world ''TRANSACTION_TOKEN'' = Some ''tt-9''"
    by (simp add: logged_in_world_def empty_world_def)
  have answer: "fixed_server 500 logged_in_world
        (post_request (cookies logged_in_world ''TRANSACTION_TOKEN'')
           ''/v1/accounts/3001/transactions/emts'' JNull)
      = Some (fixed_response 500)"
    by (simp add: fixed_server_def)
  have status: "400 \<le> status_code (fixed_response 500) \<and> status_code (fixed_response 500) < 600"
    by (simp add: fixed_response_def)
  note e = t [THEN conjunct1]
  note h = t [THEN conjunct2, THEN conjunct2, THEN conjunct1]
  note r0 = t [THEN conjunct2, THEN conjunct2, THEN conjunct2, THEN conjunct1, rule_format,
      where resp = "fixed_response 500" and then_do = response_json]
  from r0 answer status
  have r: "io_bind (api_post (fixed_server 500) ''/v1/accounts/3001/transactions/emts'' JNull)
             response_json logged_in_world
      = (Inl (HTTPError (status_code (fixed_response 500))),
         snd (api_post (fixed_server 500) ''/v1/accounts/3001/transactions/emts'' JNull
                logged_in_world))"
    by simp
  show ?thesis
    by (simp add: e h r) (simp add: tok fixed_response_def)
qed

text \<open>
  A response with status 304 is not a 2xx response, and \<open>_api_post\<close> returns it: nothing is
  raised.
\<close>

theorem api_post_status_counterexample:
  "status_code (fixed_response 304) = 304
   \<and> fst (api_post (fixed_server 304) ''/v1/accounts/3001/transactions/emts'' JNull
            logged_in_world)
     = Inr (fixed_response 304)"
  by (simp add: api_post_def Let_def io_defs session_send_def raise_for_status_def
        fixed_server_def fixed_response_def)

subsection \<open>The login scope\<close>

text \<open>
  C8. Once \<open>start\<close> has returned, the login scope runs \<open>end\<close> on the world the body
  leaves behind, whether the body returned or raised. When \<open>end\<close> returns, the outcome of
  the scope is the outcome of the body: its value, or its exception unchanged. When \<open>end\<close>
  itself raises, that exception is the outcome of the scope.
\<close>

theorem login_always_ends:
  assumes "flow_start w = (Inr u, w1)"
    and "body w1 = (r, w2)"
  shows "snd (login flow_start flow_end body w) = snd (flow_end w2)
       \<and> (fst (flow_end w2) = Inr () \<longrightarrow> fst (login flow_start flow_end body w) = r)
       \<and> (\<forall>e. fst (flow_end w2) = Inl e
              \<longrightarrow> fst (login flow_start flow_end body w) = Inl e)"
  using assms by (cases "flow_end w2") (auto simp: login_def split: sum.splits)

theorem login_always_ends_witness:
  "login example_start (example_end (fixed_server 200))
       (io_raise (Raised ''body failed'') :: (unit, unit) io) empty_world
     = (Inl (Raised ''body failed''),
        empty_world\<lparr>exchanges := [(get_request ''/logout'', Some (fixed_response 200))]\<rparr>)
   \<and> login example_start (example_end (fixed_server 200))
       (io_return ''done'') empty_world
     = (Inr ''done'',
        empty_world\<lparr>exchanges := [(get_request ''/logout'', Some (fixed_response 200))]\<rparr>)"
proof -
  have s: "example_start empty_world = (Inr (), empty_world)"
    by (simp add: example_start_def io_return_def)
  have b1: "(io_raise (Raised ''body failed'') :: (unit, unit) io) empty_world
      = (Inl (Raised ''body failed''), empty_world)"
    by (simp add: io_raise_def)
  have b2: "(io_return ''done'' :: (unit, string) io) empty_world = (Inr ''done'', empty_world)"
    by (simp add: io_return_def)
  have e: "example_end (fixed_server 200) empty_world
      = (Inr (),
         empty_world\<lparr>exchanges := [(get_request ''/logout'', Some (fixed_response 200))]\<rparr>)"
    by (simp add: example_end_def io_defs session_send_def raise_for_status_def
          fixed_server_def fixed_response_def empty_world_def)
  note t1 = login_always_ends [where flow_start = example_start and w = empty_world
      and body = "io_raise (Raised ''body failed'') :: (unit, unit) io"
      and flow_end = "example_end (fixed_server 200)", OF s b1]
  note t2 = login_always_ends [where flow_start = example_start and w = empty_world
      and body = "io_return ''done'' :: (unit, string) io"
      and flow_end = "example_end (fixed_server 200)", OF s b2]
  from t1 e have r1: "snd (login example_start (example_end (fixed_server 200))
        (io_raise (Raised ''body failed'') :: (unit, unit) io) empty_world)
        = empty_world\<lparr>exchanges := [(get_request ''/logout'', Some (fixed_response 200))]\<rparr>
      \<and> fst (login example_start (example_end (fixed_server 200))
        (io_raise (Raised ''body failed'') :: (unit, unit) io) empty_world)
        = Inl (Raised ''body failed'')"
    by simp
  from t2 e have r2: "snd (login example_start (example_end (fixed_server 200))
        (io_return ''done'') empty_world)
        = empty_world\<lparr>exchanges := [(get_request ''/logout'', Some (fixed_response 200))]\<rparr>
      \<and> fst (login example_start (example_end (fixed_server 200))
        (io_return ''done'') empty_world)
        = Inr ''done''"
    by simp
  from r1 r2 show ?thesis
    by (simp add: prod_eq_iff)
qed

text \<open>
  When the logout of \<open>end\<close> fails, the caller sees the failure of the logout and not the
  exception the body raised.
\<close>

theorem login_end_raises_counterexample:
  "fst (login example_start (example_end (fixed_server 500))
          (io_raise (Raised ''body failed'') :: (unit, unit) io) empty_world)
     = Inl (HTTPError 500)
   \<and> fst (login example_start (example_end (fixed_server 500))
          (io_raise (Raised ''body failed'') :: (unit, unit) io) empty_world)
     \<noteq> Inl (Raised ''body failed'')"
  by (simp add: login_def example_start_def example_end_def io_defs session_send_def
        raise_for_status_def fixed_server_def fixed_response_def)

subsection \<open>The transfers\<close>

lemma api_response_of_None:
  "fn w = (Inr JNull, w') \<Longrightarrow> api_response [] True fn w = (Inl TypeError, w')"
  by (simp add: api_response_def io_defs subscript_def)

lemma api_response_of_error:
  "fn w = (Inl e, w') \<Longrightarrow> api_response root_key chk fn w = (Inl e, w')"
  by (simp add: api_response_def io_defs)

lemma move_money_fn_returns_None:
  "move_money_fn srv repr account_id from_account to_account amount currency whn w = (Inr v, w')
   \<Longrightarrow> v = JNull"
  by (auto simp: move_money_fn_def Let_def io_defs py_print_def response_json_def
        split: prod.splits sum.splits option.splits)

lemma email_money_fn_returns_None:
  "email_money_fn srv repr source_account_number recipient_sequence_number amount whn
     scheduled_date emt_type w = (Inr v, w')
   \<Longrightarrow> v = JNull"
  by (auto simp: email_money_fn_def Let_def io_defs py_print_def response_json_def
        split: prod.splits sum.splits option.splits)

lemma api_response_never_None:
  assumes "\<And>v w'. fn w = (Inr v, w') \<Longrightarrow> v = JNull"
  shows "isl (fst (api_response [] True fn w))"
proof (cases "fn w")
  case (Pair r w')
  show ?thesis
  proof (cases r)
    case (Inl e)
    with Pair show ?thesis by (simp add: api_response_of_error)
  next
    case (Inr v)
    with Pair assms have "fn w = (Inr JNull, w')" by simp
    then show ?thesis by (simp add: api_response_of_None)
  qed
qed

text \<open>
  C9. \<open>move_money\<close> and \<open>email_money\<close> never return a value. The functions under the
  decorator return \<open>None\<close> whenever they return, and the decorator then subscripts \<open>None\<close>
  with \<open>'response_status'\<close>, which raises \<open>TypeError\<close>: so every call ends with an
  exception, also when the \<open>POST\<close> went through and its body was decoded and printed.
\<close>

theorem transfers_never_return:
  "isl (fst (move_money srv repr account_id from_account to_account amount currency whn w))
   \<and> isl (fst (email_money srv repr source_account_number recipient_sequence_number amount whn
                  scheduled_date emt_type w))
   \<and> (\<forall>v w'. move_money_fn srv repr account_id from_account to_account amount currency whn w
                 = (Inr v, w')
         \<longrightarrow> v = JNull
             \<and> move_money srv repr account_id from_account to_account amount currency whn w
               = (Inl TypeError, w'))
   \<and> (\<forall>v w'. email_money_fn srv repr source_account_number recipient_sequence_number amount
                 whn scheduled_date emt_type w = (Inr v, w')
         \<longrightarrow> v = JNull
             \<and> email_money srv repr source_account_number recipient_sequence_number amount whn
                 scheduled_date emt_type w
               = (Inl TypeError, w'))"
proof -
  have m1: "isl (fst (move_money srv repr account_id from_account to_account amount currency
                        whn w))"
    unfolding move_money_def
    by (rule api_response_never_None) (rule move_money_fn_returns_None)
  have e1: "isl (fst (email_money srv repr source_account_number recipient_sequence_number
                        amount whn scheduled_date emt_type w))"
    unfolding email_money_def
    by (rule api_response_never_None) (rule email_money_fn_returns_None)
  have m2: "v = JNull
      \<and> move_money srv repr account_id from_account to_account amount currency whn w
        = (Inl TypeError, w')"
    if "move_money_fn srv repr account_id from_account to_account amount currency whn w
          = (Inr v, w')" for v w'
    using that move_money_fn_returns_None [OF that]
    by (simp add: move_money_def api_response_of_None)
  have e2: "v = JNull
      \<and> email_money srv repr source_account_number recipient_sequence_number amount whn
          scheduled_date emt_type w
        = (Inl TypeError, w')"
    if "email_money_fn srv repr source_account_number recipient_sequence_number amount whn
          scheduled_date emt_type w = (Inr v, w')" for v w'
    using that email_money_fn_returns_None [OF that]
    by (simp add: email_money_def api_response_of_None)
  from m1 e1 m2 e2 show ?thesis by blast
qed

theorem transfers_never_return_witness:
  "fst (move_money (fixed_server 200) no_repr (JStr ''3001'') (JStr ''3001'') (JStr ''3002'')
          (JInt 25) (JStr ''CAD'') (JStr ''NOW'') logged_in_world)
     = Inl TypeError
   \<and> map (\<lambda>x. map_option status_code (snd x))
         (exchanges (snd (move_money (fixed_server 200) no_repr (JStr ''3001'') (JStr ''3001'')
                            (JStr ''3002'') (JInt 25) (JStr ''CAD'') (JStr ''NOW'')
                            logged_in_world)))
     = [Some 200]
   \<and> fst (email_money (fixed_server 200) no_repr (JStr ''3001'') (JInt 1) (JInt 25)
            (JStr ''NOW'') jan_31 (JStr ''INTERAC_EMT'') logged_in_world)
     = Inl TypeError"
proof -
  note t = transfers_never_return [where srv = "fixed_server 200" and repr = no_repr
      and account_id = "JStr ''3001''" and from_account = "JStr ''3001''"
      and to_account = "JStr ''3002''" and amount = "JInt 25" and currency = "JStr ''CAD''"
      and whn = "JStr ''NOW''" and w = logged_in_world
      and source_account_number = "JStr ''3001''" and recipient_sequence_number = "JInt 1"
      and scheduled_date = jan_31 and emt_type = "JStr ''INTERAC_EMT''"]
  have mf: "fst (move_money_fn (fixed_server 200) no_repr (JStr ''3001'') (JStr ''3001'')
                   (JStr ''3002'') (JInt 25) (JStr ''CAD'') (JStr ''NOW'') logged_in_world)
      = Inr JNull"
    by (simp add: move_money_fn_def api_post_def Let_def io_defs session_send_def
          raise_for_status_def response_json_def py_print_def fixed_server_def
          fixed_response_def)
  have ms: "map (\<lambda>x. map_option status_code (snd x))
        (exchanges (snd (move_money_fn (fixed_server 200) no_repr (JStr ''3001'') (JStr ''3001'')
                           (JStr ''3002'') (JInt 25) (JStr ''CAD'') (JStr ''NOW'')
                           logged_in_world)))
      = [Some 200]"
    by (simp add: move_money_fn_def api_post_def Let_def io_defs session_send_def
          raise_for_status_def response_json_def py_print_def fixed_server_def
          fixed_response_def logged_in_world_def empty_world_def)
  have ef: "fst (email_money_fn (fixed_server 200) no_repr (JStr ''3001'') (JInt 1) (JInt 25)
                   (JStr ''NOW'') jan_31 (JStr ''INTERAC_EMT'') logged_in_world)
      = Inr JNull"
    by (simp add: email_money_fn_def api_post_def Let_def io_defs session_send_def
          raise_for_status_def response_json_def py_print_def fixed_server_def
          fixed_response_def)
  note tm = t [THEN conjunct2, THEN conjunct2, THEN conjunct1, rule_format,
      where v = JNull
        and w' = "snd (move_money_fn (fixed_server 200) no_repr (JStr ''3001'') (JStr ''3001'')
                         (JStr ''3002'') (JInt 25) (JStr ''CAD'') (JStr ''NOW'')
                         logged_in_world)"]
  note te = t [THEN conjunct2, THEN conjunct2, THEN conjunct2, rule_format,
      where v = JNull
        and w' = "snd (email_money_fn (fixed_server 200) no_repr (JStr ''3001'') (JInt 1)
                         (JInt 25) (JStr ''NOW'') jan_31 (JStr ''INTERAC_EMT'')
                         logged_in_world)"]
  from tm mf have rm: "move_money (fixed_server 200) no_repr (JStr ''3001'') (JStr ''3001'')
        (JStr ''3002'') (JInt 25) (JStr ''CAD'') (JStr ''NOW'') logged_in_world
      = (Inl TypeError,
         snd (move_money_fn (fixed_server 200) no_repr (JStr ''3001'') (JStr ''3001'')
                (JStr ''3002'') (JInt 25) (JStr ''CAD'') (JStr ''NOW'') logged_in_world))"
    by (simp add: prod_eq_iff)
  from te ef have re: "email_money (fixed_server 200) no_repr (JStr ''3001'') (JInt 1)
        (JInt 25) (JStr ''NOW'') jan_31 (JStr ''INTERAC_EMT'') logged_in_world
      = (Inl TypeError,
         snd (email_money_fn (fixed_server 200) no_repr (JStr ''3001'') (JInt 1) (JInt 25)
                (JStr ''NOW'') jan_31 (JStr ''INTERAC_EMT'') logged_in_world))"
    by (simp add: prod_eq_iff)
  show ?thesis
    by (simp add: rm re ms)
qed

text \<open>
  C10. Every \<open>email_money\<close> call sends one \<open>POST\<close> request whose JSON body is the dictionary
  built in the function. Under its key \<open>emt\<close>, \<open>accepted_terms_and_conditions\<close> is
  \<open>True\<close> and \<open>message\<close> is the empty string, whatever the arguments: no parameter of the
  function reaches either field.
\<close>

theorem email_money_fixed_fields:
  "exchanges (snd (email_money srv repr source_account_number recipient_sequence_number amount
                     whn scheduled_date emt_type w))
     = exchanges w @
         [(post_request (cookies w ''TRANSACTION_TOKEN'')
             (''/v1/accounts/'' @ py_str repr source_account_number @ ''/transactions/emts'')
             (email_money_data recipient_sequence_number amount whn scheduled_date emt_type),
           srv w
             (post_request (cookies w ''TRANSACTION_TOKEN'')
                (''/v1/accounts/'' @ py_str repr source_account_number @ ''/transactions/emts'')
                (email_money_data recipient_sequence_number amount whn scheduled_date
                   emt_type)))]
   \<and> json_data
        (post_request (cookies w ''TRANSACTION_TOKEN'')
           (''/v1/accounts/'' @ py_str repr source_account_number @ ''/transactions/emts'')
           (email_money_data recipient_sequence_number amount whn scheduled_date emt_type))
     = Some (email_money_data recipient_sequence_number amount whn scheduled_date emt_type)
   \<and> (\<exists>emt. subscript
                (email_money_data recipient_sequence_number amount whn scheduled_date emt_type)
                ''emt'' = Inr emt
            \<and> subscript emt ''accepted_terms_and_conditions'' = Inr (JBool True)
            \<and> subscript emt ''message'' = Inr (JStr []))"
proof -
  have sent: "exchanges (snd (email_money_fn srv repr source_account_number
                 recipient_sequence_number amount whn scheduled_date emt_type w))
      = exchanges w @
          [(post_request (cookies w ''TRANSACTION_TOKEN'')
              (''/v1/accounts/'' @ py_str repr source_account_number @ ''/transactions/emts'')
              (email_money_data recipient_sequence_number amount whn scheduled_date emt_type),
            srv w
              (post_request (cookies w ''TRANSACTION_TOKEN'')
                 (''/v1/accounts/'' @ py_str repr source_account_number @ ''/transactions/emts'')
                 (email_money_data recipient_sequence_number amount whn scheduled_date
                    emt_type)))]"
    by (auto simp: email_money_fn_def api_post_def Let_def io_defs session_send_def
          raise_for_status_def response_json_def py_print_def split: option.splits)
  have fields: "\<exists>emt. subscript
        (email_money_data recipient_sequence_number amount whn scheduled_date emt_type)
        ''emt'' = Inr emt
      \<and> subscript emt ''accepted_terms_and_conditions'' = Inr (JBool True)
      \<and> subscript emt ''message'' = Inr (JStr [])"
    by (simp add: email_money_data_def subscript_def)
  show ?thesis
    using sent fields by (simp add: email_money_def api_response_snd post_request_def)
qed

end
